theory Spec2Isabelle
  imports Main
begin

section \<open>JavaScript values and the object heap\<close>

text \<open>
  The values the dispatcher and the configuration store handle.  A number is an integer
  or \<open>NaN\<close> (fractions and infinities are outside the value model); an object is an
  address into the heap, so that two references to one object are the same \<open>JRef\<close>.
\<close>

datatype jsval =
    JUndefined
  | JNull
  | JBool bool
  | JNum int
  | JNaN
  | JStr string
  | JRef nat

type_synonym props = "(string \<times> jsval) list"

text \<open>
  An object of the heap is a plain object: its list of own properties, in insertion
  order.  Arrays, functions and the properties an object inherits from its prototype
  (\<open>constructor\<close>, \<open>toString\<close>, ...) are outside the value model, as are the
  properties of primitives (a string's length and characters).  \<open>nxt\<close> is the next
  unused address.
\<close>

record heap =
  objs :: "nat \<Rightarrow> props option"
  nxt :: nat

definition props_of :: "heap \<Rightarrow> nat \<Rightarrow> props" where
  "props_of h a = (case objs h a of Some ps \<Rightarrow> ps | None \<Rightarrow> [])"

text \<open>\<open>new Object\<close> with the given own properties.\<close>

definition alloc :: "props \<Rightarrow> heap \<Rightarrow> nat \<times> heap" where
  "alloc ps h = (nxt h, h\<lparr>objs := (objs h)(nxt h \<mapsto> ps), nxt := Suc (nxt h)\<rparr>)"

text \<open>\<open>ps[k] = v\<close> on a property list: an existing property keeps its place.\<close>

fun setProp :: "string \<Rightarrow> jsval \<Rightarrow> props \<Rightarrow> props" where
  "setProp k v [] = [(k, v)]"
| "setProp k v ((k', v') # ps) =
     (if k = k' then (k, v) # ps else (k', v') # setProp k v ps)"

text \<open>\<open>o[k]\<close> for an object address: \<open>undefined\<close> when \<open>k\<close> is no own property.\<close>

definition readProp :: "heap \<Rightarrow> nat \<Rightarrow> string \<Rightarrow> jsval" where
  "readProp h a k = (case map_of (props_of h a) k of Some v \<Rightarrow> v | None \<Rightarrow> JUndefined)"

text \<open>\<open>o[k] = v\<close> for an object address.\<close>

definition writeProp :: "nat \<Rightarrow> string \<Rightarrow> jsval \<Rightarrow> heap \<Rightarrow> heap" where
  "writeProp a k v h = h\<lparr>objs := (objs h)(a \<mapsto> setProp k v (props_of h a))\<rparr>"

text \<open>
  \<open>v[k]\<close> for any value: reading a property of \<open>undefined\<close> or \<open>null\<close> throws a
  TypeError (\<open>None\<close>); a primitive has no properties of its own.
\<close>

definition getMember :: "heap \<Rightarrow> jsval \<Rightarrow> string \<Rightarrow> jsval option" where
  "getMember h v k =
     (case v of
        JUndefined \<Rightarrow> None
      | JNull \<Rightarrow> None
      | JRef a \<Rightarrow> Some (readProp h a k)
      | _ \<Rightarrow> Some JUndefined)"

text \<open>
  \<open>v.p = w\<close> as user code does it on a value it holds: only an object is changed (on a
  primitive the assignment has no effect on any object).
\<close>

definition assignProp :: "jsval \<Rightarrow> string \<times> jsval \<Rightarrow> heap \<Rightarrow> heap" where
  "assignProp v pw h = (case v of JRef a \<Rightarrow> writeProp a (fst pw) (snd pw) h | _ \<Rightarrow> h)"


section \<open>The configuration store (src/Config/index.js)\<close>

text \<open>
  The paths of lodash's \<open>get\<close> and \<open>set\<close> (lodash 4.17, \<open>castPath\<close>): a string key
  that is itself a property of the object is one segment; any other key is cut at its
  dots.  (Bracket syntax such as \<open>a[0]\<close> is not modelled: the model is that of lodash
  for keys without brackets.)
\<close>

fun splitDots :: "string \<Rightarrow> string list" where
  "splitDots [] = [[]]"
| "splitDots (c # cs) =
     (if c = CHR ''.'' then [] # splitDots cs
      else (case splitDots cs of [] \<Rightarrow> [[c]] | w # ws \<Rightarrow> (c # w) # ws))"

definition castPath :: "string \<Rightarrow> props \<Rightarrow> string list" where
  "castPath key ps = (if key \<in> fst ` set ps then [key] else splitDots key)"

text \<open>
  lodash's \<open>baseGet\<close>: follow the path while the value at hand is neither \<open>undefined\<close>
  nor \<open>null\<close>; the result is \<open>undefined\<close> when the walk stops early.
\<close>

fun baseGet :: "heap \<Rightarrow> jsval \<Rightarrow> string list \<Rightarrow> jsval" where
  "baseGet h v [] = v"
| "baseGet h v (k # ks) =
     (case v of
        JUndefined \<Rightarrow> JUndefined
      | JNull \<Rightarrow> JUndefined
      | JRef a \<Rightarrow> baseGet h (readProp h a k) ks
      | _ \<Rightarrow> baseGet h JUndefined ks)"

definition lodash_get :: "heap \<Rightarrow> nat \<Rightarrow> string \<Rightarrow> jsval \<Rightarrow> jsval" where
  "lodash_get h root key defaultValue =
     (let result = baseGet h (JRef root) (castPath key (props_of h root))
      in if result = JUndefined then defaultValue else result)"

text \<open>lodash's \<open>clone\<close>: a shallow copy; a primitive is returned as it is.\<close>

definition lodash_clone :: "jsval \<Rightarrow> heap \<Rightarrow> jsval \<times> heap" where
  "lodash_clone v h =
     (case v of
        JRef a \<Rightarrow> (let (b, h') = alloc (props_of h a) h in (JRef b, h'))
      | _ \<Rightarrow> (v, h))"

text \<open>
  lodash's \<open>baseSet\<close> (as of 4.17.21), walking from the object \<open>nested\<close>.  At a segment
  \<open>__proto__\<close>, \<open>constructor\<close> or \<open>prototype\<close> the walk returns at once, with what
  it has written before that segment; a segment that is not the last keeps the object
  it finds there or puts a new empty object in its place
  (\<open>isObject(objValue) ? objValue : {}\<close>); the last segment receives the value.
  (Where the next segment is an array index lodash puts a new array, which is outside the
  value model: the model follows lodash for paths without array indices.)
\<close>

definition unsafe_key :: "string \<Rightarrow> bool" where
  "unsafe_key k \<longleftrightarrow> k = ''__proto__'' \<or> k = ''constructor'' \<or> k = ''prototype''"

definition objectOrNew :: "heap \<Rightarrow> jsval \<Rightarrow> nat \<times> heap" where
  "objectOrNew h objValue = (case objValue of JRef b \<Rightarrow> (b, h) | _ \<Rightarrow> alloc [] h)"

fun baseSet :: "string list \<Rightarrow> jsval \<Rightarrow> nat \<Rightarrow> heap \<Rightarrow> heap" where
  "baseSet [] value nested h = h"
| "baseSet [k] value nested h = (if unsafe_key k then h else writeProp nested k value h)"
| "baseSet (k # k' # ks) value nested h =
     (if unsafe_key k then h
      else (let (b, h1) = objectOrNew h (readProp h nested k)
            in baseSet (k' # ks) value b (writeProp nested k (JRef b) h1)))"

definition lodash_set :: "nat \<Rightarrow> string \<Rightarrow> jsval \<Rightarrow> heap \<Rightarrow> heap" where
  "lodash_set root key value h = baseSet (castPath key (props_of h root)) value root h"

text \<open>
  The Config singleton: \<open>_config\<close> is the address of the store's root object;
  \<open>emitted\<close> lists what was handed to \<open>Event.emit\<close>, newest last.
\<close>

datatype config_event = ConfigSet string jsval jsval

record config =
  store :: heap
  config_root :: nat
  emitted :: "config_event list"

text \<open>\<open>get(key, defaultValue)\<close>: \<open>_.clone(_.get(this._config, key, defaultValue))\<close>.\<close>

definition Config_get :: "string \<Rightarrow> jsval \<Rightarrow> config \<Rightarrow> jsval \<times> config" where
  "Config_get key defaultValue c =
     (let (v, h') = lodash_clone (lodash_get (store c) (config_root c) key defaultValue) (store c)
      in (v, c\<lparr>store := h'\<rparr>))"

text \<open>\<open>set(key, value, emit = true)\<close>.\<close>

definition Config_set :: "string \<Rightarrow> jsval \<Rightarrow> bool \<Rightarrow> config \<Rightarrow> config" where
  "Config_set key value emit c =
     (let (oldValue, c1) = Config_get key JUndefined c;
          c2 = c1\<lparr>store := lodash_set (config_root c1) key value (store c1)\<rparr>
      in if emit then c2\<lparr>emitted := emitted c2 @ [ConfigSet key value oldValue]\<rparr> else c2)"

section \<open>Strings and numbers of the runtime\<close>

fun digits :: "nat \<Rightarrow> string" where
  "digits n =
     (if n < 10 then [''0123456789'' ! n]
      else digits (n div 10) @ [''0123456789'' ! (n mod 10)])"

declare digits.simps [simp del]

definition show_int :: "int \<Rightarrow> string" where
  "show_int i = (if i < 0 then CHR ''-'' # digits (nat (- i)) else digits (nat i))"

text \<open>\<open>`${v}`\<close>: the string of a value in a template literal.\<close>

definition js_toString :: "jsval \<Rightarrow> string" where
  "js_toString v =
     (case v of
        JUndefined \<Rightarrow> ''undefined''
      | JNull \<Rightarrow> ''null''
      | JBool b \<Rightarrow> (if b then ''true'' else ''false'')
      | JNum n \<Rightarrow> show_int n
      | JNaN \<Rightarrow> ''NaN''
      | JStr s \<Rightarrow> s
      | JRef a \<Rightarrow> ''[object Object]'')"

definition truthy :: "jsval \<Rightarrow> bool" where
  "truthy v \<longleftrightarrow> v \<notin> {JUndefined, JNull, JBool False, JNum 0, JNaN, JStr []}"

definition is_ws :: "char \<Rightarrow> bool" where
  "is_ws c \<longleftrightarrow> c \<in> {CHR '' '', CHR 0x09, CHR 0x0A, CHR 0x0B, CHR 0x0C, CHR 0x0D}"

definition digit_val :: "char \<Rightarrow> nat option" where
  "digit_val = map_of
     [(CHR ''0'', 0), (CHR ''1'', 1), (CHR ''2'', 2), (CHR ''3'', 3), (CHR ''4'', 4),
      (CHR ''5'', 5), (CHR ''6'', 6), (CHR ''7'', 7), (CHR ''8'', 8), (CHR ''9'', 9),
      (CHR ''a'', 10), (CHR ''b'', 11), (CHR ''c'', 12), (CHR ''d'', 13), (CHR ''e'', 14),
      (CHR ''f'', 15), (CHR ''A'', 10), (CHR ''B'', 11), (CHR ''C'', 12), (CHR ''D'', 13),
      (CHR ''E'', 14), (CHR ''F'', 15)]"

definition is_digit :: "nat \<Rightarrow> char \<Rightarrow> bool" where
  "is_digit radix c = (case digit_val c of Some d \<Rightarrow> d < radix | None \<Rightarrow> False)"

definition digits_value :: "nat \<Rightarrow> string \<Rightarrow> nat" where
  "digits_value radix ds =
     foldl (\<lambda>acc c. acc * radix + (case digit_val c of Some d \<Rightarrow> d | None \<Rightarrow> 0)) 0 ds"

definition hex_prefix :: "string \<Rightarrow> bool" where
  "hex_prefix s \<longleftrightarrow> take 2 s = ''0x'' \<or> take 2 s = ''0X''"

text \<open>
  \<open>parseInt(s)\<close> with no radix: leading white space, a sign, a \<open>0x\<close> prefix, then the
  longest run of digits; \<open>NaN\<close> when there is none.  An unset environment variable is
  \<open>undefined\<close>, which parses to \<open>NaN\<close>.
\<close>

definition parseInt :: "string option \<Rightarrow> jsval" where
  "parseInt so =
     (case so of
        None \<Rightarrow> JNaN
      | Some s \<Rightarrow>
          (let s1 = dropWhile is_ws s;
               neg = (take 1 s1 = ''-'');
               s2 = (if take 1 s1 = ''-'' \<or> take 1 s1 = ''+'' then drop 1 s1 else s1);
               radix = (if hex_prefix s2 then 16 else 10);
               s3 = (if hex_prefix s2 then drop 2 s2 else s2);
               ds = takeWhile (is_digit radix) s3
           in if ds = [] then JNaN
              else JNum (if neg then - int (digits_value radix ds)
                         else int (digits_value radix ds))))"

text \<open>
  \<open>Number(v)\<close>.  A string converts when, trimmed, it is empty, a signed run of decimal
  digits or a \<open>0x\<close> literal; every other string is \<open>NaN\<close> here (fractions and exponents
  are outside the value model).
\<close>

definition js_toNumber :: "jsval \<Rightarrow> jsval" where
  "js_toNumber v =
     (case v of
        JUndefined \<Rightarrow> JNaN
      | JNull \<Rightarrow> JNum 0
      | JBool b \<Rightarrow> JNum (if b then 1 else 0)
      | JNum n \<Rightarrow> JNum n
      | JNaN \<Rightarrow> JNaN
      | JRef a \<Rightarrow> JNaN
      | JStr s \<Rightarrow>
          (let t = rev (dropWhile is_ws (rev (dropWhile is_ws s)));
               neg = (take 1 t = ''-'');
               u = (if take 1 t = ''-'' \<or> take 1 t = ''+'' then drop 1 t else t)
           in if t = [] then JNum 0
              else if hex_prefix t then
                (if drop 2 t \<noteq> [] \<and> list_all (is_digit 16) (drop 2 t)
                 then JNum (int (digits_value 16 (drop 2 t))) else JNaN)
              else if u \<noteq> [] \<and> list_all (is_digit 10) u then
                JNum (if neg then - int (digits_value 10 u) else int (digits_value 10 u))
              else JNaN))"

text \<open>
  \<open>a + b\<close>: concatenation as soon as one side is a string or an object, the sum of the
  two numbers otherwise.
\<close>

definition is_stringy :: "jsval \<Rightarrow> bool" where
  "is_stringy v = (case v of JStr s \<Rightarrow> True | JRef a \<Rightarrow> True | _ \<Rightarrow> False)"

definition js_plus :: "jsval \<Rightarrow> jsval \<Rightarrow> jsval" where
  "js_plus a b =
     (if is_stringy a \<or> is_stringy b then JStr (js_toString a @ js_toString b)
      else (case (js_toNumber a, js_toNumber b) of
              (JNum x, JNum y) \<Rightarrow> JNum (x + y)
            | _ \<Rightarrow> JNaN))"

section \<open>Errors\<close>

text \<open>
  What is thrown need not be an Error.  The dispatcher reads \<open>name\<close>, \<open>message\<close>,
  \<open>stack\<close>, \<open>status\<close> and \<open>code\<close> of a thrown value and assigns its \<open>status\<close>;
  \<open>err_kind\<close> tells what the thrown value allows: an object whose \<open>status\<close> can be
  assigned (\<open>ErrorObject\<close>); a value whose properties can be read but whose \<open>status\<close>
  cannot be assigned, the assignment throwing in strict mode: a frozen object, or a
  string, number or boolean (\<open>ReadOnly\<close>); \<open>null\<close> or \<open>undefined\<close>, of which no
  property can be read (\<open>Nullish\<close>).  \<open>err_name\<close>, \<open>err_message\<close> and \<open>err_stack\<close>
  are the texts that a template literal makes of the three properties.
\<close>

datatype thrown_kind = ErrorObject | ReadOnly | Nullish

record js_error =
  err_name :: string
  err_message :: string
  err_stack :: string
  err_status :: "nat option"
  err_code :: "string option"
  err_kind :: thrown_kind

text \<open>
  The exceptions the dispatcher constructs.  \<open>err_message\<close> is the message handed to the
  constructor; \<open>err_stack\<close> is the header line of the stack text (the frames depend on
  the runtime).
\<close>

definition HttpException :: "string \<Rightarrow> nat \<Rightarrow> string \<Rightarrow> js_error" where
  "HttpException message status code =
     \<lparr>err_name = ''HttpException'', err_message = message,
      err_stack = ''HttpException: '' @ message,
      err_status = Some status, err_code = Some code, err_kind = ErrorObject\<rparr>"

definition RuntimeException_invoke :: "string \<Rightarrow> js_error" where
  "RuntimeException_invoke message =
     \<lparr>err_name = ''RuntimeException'', err_message = message,
      err_stack = ''RuntimeException: '' @ message,
      err_status = Some 500, err_code = Some ''E_RUNTIME_ERROR'', err_kind = ErrorObject\<rparr>"

definition TypeError :: "string \<Rightarrow> js_error" where
  "TypeError message =
     \<lparr>err_name = ''TypeError'', err_message = message,
      err_stack = ''TypeError: '' @ message,
      err_status = None, err_code = None, err_kind = ErrorObject\<rparr>"

section \<open>The response object\<close>

text \<open>
  The dispatcher reads \<open>response.isPending\<close>, \<open>response.implicitEnd\<close> and
  \<open>response.lazyBody\<close> (\<open>content\<close>, \<open>method\<close>) and calls \<open>send\<close>, \<open>status\<close> and
  \<open>end\<close>.  The fields \<open>sentBody\<close> and \<open>ends\<close> record what reached the stream and how
  often it was closed.
\<close>

record response =
  isPending :: bool
  implicitEnd :: bool
  lazyBody_content :: jsval
  lazyBody_method :: string
  statusCode :: nat
  sentBody :: "jsval option"
  ends :: nat

text \<open>
  Modelled from the spec: the Response class is not among the sources.  The spec's
  response is pending (nothing sent), soft-set (body and status staged, stream not
  closed) or ended (stream closed): \<open>send\<close> stages a body, \<open>status\<close> stages the status,
  \<open>end\<close> flushes what is staged and closes the stream.
\<close>

definition Response_send :: "jsval \<Rightarrow> response \<Rightarrow> response" where
  "Response_send content r = r\<lparr>lazyBody_content := content, lazyBody_method := ''send''\<rparr>"

definition Response_status :: "nat \<Rightarrow> response \<Rightarrow> response" where
  "Response_status code r = r\<lparr>statusCode := code\<rparr>"

definition Response_end :: "response \<Rightarrow> response" where
  "Response_end r =
     r\<lparr>isPending := False, sentBody := Some (lazyBody_content r), ends := Suc (ends r)\<rparr>"

text \<open>\<open>_madeSoftResponse\<close>: a body is staged and a method is named for it.\<close>

definition madeSoftResponse :: "response \<Rightarrow> bool" where
  "madeSoftResponse r \<longleftrightarrow>
     lazyBody_content r \<noteq> JUndefined \<and> lazyBody_content r \<noteq> JNull \<and> lazyBody_method r \<noteq> ''''"

text \<open>\<open>_endResponse\<close>: end the response only when it is pending and ends implicitly.\<close>

definition endResponse :: "response \<Rightarrow> response" where
  "endResponse r = (if isPending r \<and> implicitEnd r then Response_end r else r)"

text \<open>\<open>_safelySetResponse\<close>: send the content unless a body is staged already.\<close>

definition safelySetResponse :: "response \<Rightarrow> jsval \<Rightarrow> response" where
  "safelySetResponse r content =
     (if \<not> madeSoftResponse r \<and> content \<noteq> JUndefined then Response_send content r else r)"

text \<open>\<open>_evaluateResponse\<close>: a staged body on a pending response ends it.\<close>

definition evaluateResponse :: "response \<Rightarrow> response" where
  "evaluateResponse r = (if madeSoftResponse r \<and> isPending r then endResponse r else r)"

section \<open>The request context and the collaborators of the server\<close>

record request =
  req_url :: string
  req_method :: string
  req_hostname :: string
  req_params :: jsval

text \<open>\<open>ctx.abort\<close>: an AbortController, with the number of calls of \<open>abort()\<close>.\<close>

record abort_controller =
  aborted :: bool
  abort_calls :: nat

definition AbortController_abort :: "abort_controller \<Rightarrow> abort_controller" where
  "AbortController_abort ac = ac\<lparr>aborted := True, abort_calls := Suc (abort_calls ac)\<rparr>"

record ctx =
  ctx_request :: request
  ctx_response :: response
  ctx_params :: jsval
  ctx_subdomains :: jsval
  ctx_timeout :: jsval
  ctx_abort :: "abort_controller option"

text \<open>
  Modelled from the spec: the Context class is not among the sources.  A fresh Request
  Context holds the request and a pending response with nothing staged; it carries no
  timeout and no cancellation handle yet.
\<close>

definition new_Context :: "request \<Rightarrow> ctx" where
  "new_Context req =
     \<lparr>ctx_request = req,
      ctx_response = \<lparr>isPending = True, implicitEnd = True, lazyBody_content = JNull,
        lazyBody_method = ''send'', statusCode = 200, sentBody = None, ends = 0\<rparr>,
      ctx_params = JUndefined, ctx_subdomains = JUndefined,
      ctx_timeout = JUndefined, ctx_abort = None\<rparr>"

text \<open>What \<open>Route.match\<close> returns: \<open>params\<close>, \<open>subdomains\<close> and the route itself.\<close>

record route =
  clusterGroup :: "string option"
  middlewareList :: "string list"
  handler :: string

record route_match =
  match_params :: jsval
  match_subdomains :: jsval
  match_route :: route

text \<open>
  A middleware link, run on the shared context: it calls \<open>next\<close>, or returns without
  calling it, or throws.  (What a link does after \<open>next\<close> has returned is not
  modelled.)
\<close>

datatype link_result = CallsNext ctx | Halts ctx | Raises js_error ctx

type_synonym link = "ctx \<Rightarrow> link_result"

text \<open>
  A resolved controller method, called on the context: when, on the clock of the
  request (in milliseconds from the call), its promise settles and how, or that it never
  does; and the context as the method has left it when the guard's race is decided.
\<close>

datatype handler_run = Resolves nat jsval | Rejects nat js_error | Hangs

type_synonym controller_method = "ctx \<Rightarrow> handler_run \<times> ctx"

text \<open>
  The exception handler made by the container: \<open>report\<close> and \<open>handle\<close>, each absent
  (\<open>None\<close>) when the object has no such function.  A call yields the error it throws,
  if any; \<open>handle\<close> also yields the context as it leaves it.
\<close>

record exception_handler =
  report :: "(js_error \<Rightarrow> request \<Rightarrow> js_error option) option"
  handle_op :: "(js_error \<Rightarrow> ctx \<Rightarrow> js_error option \<times> ctx) option"

record process_env =
  HTTP_PROXY_ENABLED :: "string option"
  WORKER_TYPE :: "string option"
  HTTP_PORT :: "string option"

text \<open>
  The server with what it was constructed and set up with.  \<open>proxy\<close> tells whether
  \<open>this._proxy\<close> is a proxy server (\<open>True\<close>) or \<open>null\<close>; \<open>Route_match\<close>,
  \<open>resolveFunc\<close> and \<open>make_handler\<close> stand for the route store, the resolver of
  controller methods and the container, which are not among the sources.
\<close>

record server =
  env :: process_env
  proxy :: bool
  Route_match :: "string \<Rightarrow> string \<Rightarrow> string \<Rightarrow> route_match option"
  serverMiddleware :: "link list"
  globalMiddleware :: "link list"
  namedMiddleware :: "string \<Rightarrow> (string \<Rightarrow> link) option"
  resolveFunc :: "string \<Rightarrow> js_error + controller_method"
  exceptionHandlerNamespace :: string
  make_handler :: "js_error + exception_handler"

text \<open>The constructor's choice of \<open>this._proxy\<close>.\<close>

definition constructor_proxy :: "process_env \<Rightarrow> bool" where
  "constructor_proxy e \<longleftrightarrow> HTTP_PROXY_ENABLED e = Some ''true''"

text \<open>
  What the dispatcher did, in order: the links and the controller method it ran, the
  calls of \<open>abort()\<close>, the requests it forwarded, the calls of the exception handler;
  and that the promise of \<open>_handleException\<close>, which nobody waits for, was rejected
  with a TypeError.
\<close>

datatype event =
    RanServerMiddleware nat
  | RanRouteMiddleware nat
  | CalledHandler string
  | CalledAbort
  | ProxyWeb string
  | Reported js_error
  | Handled js_error
  | UnhandledRejection

text \<open>A deadline timer that is armed: when it fires and the signal that can cancel it.\<close>

record timer =
  fireAt :: nat
  timer_signal :: jsval

record world =
  conf :: config
  trace :: "event list"
  timers :: "timer list"

section \<open>The middleware runner\<close>

text \<open>
  Modelled from the spec (section 4.1; the runner is the package
  \<open>@adonisjs/middleware-base\<close>): the links run in order, a link that does not call
  \<open>next\<close> halts the chain, a link that fails aborts it and the failure goes to the
  caller.
\<close>

datatype chain_end = ReachedEnd | Stopped | Failed js_error

fun run_chain ::
  "(nat \<Rightarrow> event) \<Rightarrow> nat \<Rightarrow> link list \<Rightarrow> ctx \<Rightarrow> event list \<Rightarrow> chain_end \<times> ctx \<times> event list"
where
  "run_chain ev i [] c tr = (ReachedEnd, c, tr)"
| "run_chain ev i (l # ls) c tr =
     (case l c of
        CallsNext c' \<Rightarrow> run_chain ev (Suc i) ls c' (tr @ [ev i])
      | Halts c' \<Rightarrow> (Stopped, c', tr @ [ev i])
      | Raises e c' \<Rightarrow> (Failed e, c', tr @ [ev i]))"

text \<open>
  A named middleware of a route, \<open>name\<close> or \<open>name:argument\<close>, looked up in the
  registry; a name that is not registered is a failure of the composition.
\<close>

definition resolveNamed :: "server \<Rightarrow> string \<Rightarrow> js_error + link" where
  "resolveNamed srv ident =
     (case namedMiddleware srv (takeWhile (\<lambda>c. c \<noteq> CHR '':'') ident) of
        None \<Rightarrow> Inl (RuntimeException_invoke
          (''Cannot find any named middleware for {'' @ ident @ ''}''))
      | Some mk \<Rightarrow> Inr (mk (drop 1 (dropWhile (\<lambda>c. c \<noteq> CHR '':'') ident))))"

fun resolveAll :: "server \<Rightarrow> string list \<Rightarrow> js_error + link list" where
  "resolveAll srv [] = Inr []"
| "resolveAll srv (n # ns) =
     (case resolveNamed srv n of
        Inl e \<Rightarrow> Inl e
      | Inr l \<Rightarrow> (case resolveAll srv ns of Inl e \<Rightarrow> Inl e | Inr ls \<Rightarrow> Inr (l # ls)))"

definition composeGlobalAndNamed :: "server \<Rightarrow> string list \<Rightarrow> js_error + link list" where
  "composeGlobalAndNamed srv routeMiddleware =
     (case resolveAll srv routeMiddleware of
        Inl e \<Rightarrow> Inl e
      | Inr ls \<Rightarrow> Inr (globalMiddleware srv @ ls))"

section \<open>Promises and timers\<close>

datatype settle = Fulfilled jsval | Rejected js_error

text \<open>When, and how, the promise of a controller method settles, if ever.\<close>

fun settlement :: "handler_run \<Rightarrow> (nat \<times> settle) option" where
  "settlement (Resolves t v) = Some (t, Fulfilled v)"
| "settlement (Rejects t e) = Some (t, Rejected e)"
| "settlement Hangs = None"

text \<open>
  The delay of a timer: the value as a number, and 1 when that is not within
  \<open>1 .. 2\<^sup>3\<^sup>1 - 1\<close>.
\<close>

definition timerDelay :: "jsval \<Rightarrow> nat" where
  "timerDelay v =
     (case js_toNumber v of
        JNum n \<Rightarrow> (if 1 \<le> n \<and> n \<le> 2147483647 then nat n else 1)
      | _ \<Rightarrow> 1)"

definition AbortError :: js_error where
  "AbortError =
     \<lparr>err_name = ''AbortError'', err_message = ''The operation was aborted'',
      err_stack = ''AbortError: The operation was aborted'',
      err_status = None, err_code = Some ''ABORT_ERR'', err_kind = ErrorObject\<rparr>"

definition invalid_signal :: js_error where
  "invalid_signal =
     \<lparr>err_name = ''TypeError'',
      err_message = ''The options.signal property must be an instance of AbortSignal'',
      err_stack = ''TypeError: The options.signal property must be an instance of AbortSignal'',
      err_status = None, err_code = Some ''ERR_INVALID_ARG_TYPE'', err_kind = ErrorObject\<rparr>"

text \<open>
  \<open>setTimeout(delay, undefined, {signal})\<close> of \<open>timers/promises\<close>: with no signal a
  timer is armed and the promise is fulfilled when it fires; a signal that is aborted
  already rejects at once with an AbortError; anything else that is given as a signal is
  refused at once.  (The value model holds no AbortSignal: an object counts as an aborted
  signal when its \<open>aborted\<close> property is truthy.)
\<close>

datatype timer_promise = Armed nat | Refused js_error

definition timers_setTimeout :: "heap \<Rightarrow> jsval \<Rightarrow> jsval \<Rightarrow> timer_promise" where
  "timers_setTimeout h delay signal =
     (case signal of
        JUndefined \<Rightarrow> Armed (timerDelay delay)
      | JRef s \<Rightarrow>
          (if truthy (readProp h s ''aborted'') then Refused AbortError
           else Refused invalid_signal)
      | _ \<Rightarrow> Refused invalid_signal)"

text \<open>
  The second promise of the race: the timer's promise, then \<open>throw new HttpException\<close>,
  then the \<open>catch\<close> that swallows an \<open>ABORT_ERR\<close> and rethrows every other error.
\<close>

definition rethrow_unless_abort :: "js_error \<Rightarrow> settle" where
  "rethrow_unless_abort err =
     (if err_code err = Some ''ABORT_ERR'' then Fulfilled JUndefined else Rejected err)"

definition deadline :: "jsval \<Rightarrow> timer_promise \<Rightarrow> nat \<times> settle" where
  "deadline timeout tp =
     (case tp of
        Armed d \<Rightarrow>
          (d, rethrow_unless_abort
                (HttpException (''Request timed out after '' @ js_toString timeout @ '' ms'')
                   500 ''E_SERVER_TIMEOUT''))
      | Refused err \<Rightarrow> (0, rethrow_unless_abort err))"

text \<open>
  \<open>Promise.race([handler, deadline])\<close>: the promise that settles first decides; on the
  same tick it is the first of the array.  The flag tells whether the handler decided.
\<close>

definition promise_race :: "(nat \<times> settle) option \<Rightarrow> nat \<times> settle \<Rightarrow> bool \<times> settle" where
  "promise_race hp tp =
     (case hp of
        None \<Rightarrow> (False, snd tp)
      | Some (th, sh) \<Rightarrow> (if th \<le> fst tp then (True, sh) else (False, snd tp)))"

section \<open>The server (src/Server/index.js)\<close>

definition executeServerMiddleware :: "server \<Rightarrow> ctx \<Rightarrow> world \<Rightarrow> chain_end \<times> ctx \<times> world" where
  "executeServerMiddleware srv c w =
     (case run_chain RanServerMiddleware 0 (serverMiddleware srv) c (trace w) of
        (r, c', tr) \<Rightarrow> (r, c', w\<lparr>trace := tr\<rparr>))"

text \<open>
  \<open>_routeHandler\<close>.  The result is the error the promise of the method is rejected
  with, if any.  The array of the race is built in order: the controller method is
  called, then \<open>ctx.timeout.signal\<close> is read, which throws when \<open>ctx.timeout\<close> is
  \<open>undefined\<close> or \<open>null\<close>, before there is a race or a \<open>finally\<close>.  A timer that is
  armed and has not fired when the race is decided stays in \<open>timers\<close>: \<open>abort()\<close> acts
  on \<open>ctx.abort\<close>, and the timer was given \<open>ctx.timeout.signal\<close>.
\<close>

definition routeHandler :: "server \<Rightarrow> string \<Rightarrow> ctx \<Rightarrow> world \<Rightarrow> js_error option \<times> ctx \<times> world" where
  "routeHandler srv ref c w =
     (case resolveFunc srv ref of
        Inl e \<Rightarrow> (Some e, c, w)
      | Inr method \<Rightarrow>
          (let c1 = c\<lparr>ctx_abort := Some \<lparr>aborted = False, abort_calls = 0\<rparr>\<rparr>;
               (t, cf) = (if ctx_timeout c = JUndefined \<or> ctx_timeout c = JNull
                          then Config_get ''app.http.timeout'' JUndefined (conf w)
                          else (ctx_timeout c, conf w));
               c2 = c1\<lparr>ctx_timeout := t\<rparr>;
               (run, c3) = method c2;
               w1 = w\<lparr>conf := cf, trace := trace w @ [CalledHandler ref]\<rparr>
           in case getMember (store cf) t ''signal'' of
                None \<Rightarrow>
                  (Some (TypeError (''Cannot read properties of '' @ js_toString t
                           @ '' (reading 'signal')'')), c3, w1)
              | Some signal \<Rightarrow>
                  (let tp = timers_setTimeout (store cf) t signal;
                       (handlerFirst, outcome) =
                          promise_race (settlement run) (deadline (ctx_timeout c3) tp);
                       w2 = (case tp of
                               Armed d \<Rightarrow>
                                 (if handlerFirst
                                  then w1\<lparr>timers := timers w1 @ [\<lparr>fireAt = d, timer_signal = signal\<rparr>]\<rparr>
                                  else w1)
                             | Refused err \<Rightarrow> w1)
                   in case ctx_abort c3 of
                        None \<Rightarrow>
                          (Some (TypeError ''Cannot read properties of undefined (reading 'abort')''),
                           c3, w2)
                      | Some ac \<Rightarrow>
                          (let c4 = c3\<lparr>ctx_abort := Some (AbortController_abort ac)\<rparr>;
                               w3 = w2\<lparr>trace := trace w2 @ [CalledAbort]\<rparr>
                           in case outcome of
                                Rejected e \<Rightarrow> (Some e, c4, w3)
                              | Fulfilled returnValue \<Rightarrow>
                                  (None,
                                   c4\<lparr>ctx_response := safelySetResponse (ctx_response c4) returnValue\<rparr>,
                                   w3)))))"

text \<open>
  \<open>_executeRouteHandler\<close>: the global and the route's named middleware, then
  \<open>_routeHandler\<close> as the last link.
\<close>

definition executeRouteHandler :: "server \<Rightarrow> route \<Rightarrow> ctx \<Rightarrow> world \<Rightarrow> js_error option \<times> ctx \<times> world" where
  "executeRouteHandler srv rt c w =
     (case composeGlobalAndNamed srv (middlewareList rt) of
        Inl e \<Rightarrow> (Some e, c, w)
      | Inr links \<Rightarrow>
          (case run_chain RanRouteMiddleware 0 links c (trace w) of
             (ReachedEnd, c', tr) \<Rightarrow> routeHandler srv (handler rt) c' (w\<lparr>trace := tr\<rparr>)
           | (Stopped, c', tr) \<Rightarrow> (None, c', w\<lparr>trace := tr\<rparr>)
           | (Failed e, c', tr) \<Rightarrow> (Some e, c', w\<lparr>trace := tr\<rparr>)))"

text \<open>\<open>_getRoute\<close>: the route of the request, or the 404 exception.\<close>

definition getRoute :: "server \<Rightarrow> ctx \<Rightarrow> js_error + route_match \<times> ctx" where
  "getRoute srv c =
     (case Route_match srv (req_url (ctx_request c)) (req_method (ctx_request c))
             (req_hostname (ctx_request c)) of
        None \<Rightarrow>
          Inl (HttpException
                 (''Route not found '' @ req_method (ctx_request c) @ '' '' @ req_url (ctx_request c))
                 404 ''E_ROUTE_NOT_FOUND'')
      | Some m \<Rightarrow>
          Inr (m, c\<lparr>ctx_params := match_params m, ctx_subdomains := match_subdomains m,
                     ctx_request := (ctx_request c)\<lparr>req_params := match_params m\<rparr>\<rparr>))"

text \<open>
  \<open>_handleException\<close>.  \<open>tryHandler\<close> is the \<open>try\<close> block: the error it throws,
  if any, with the context and the trace as it leaves them.
\<close>

definition tryHandler :: "server \<Rightarrow> js_error \<Rightarrow> ctx \<Rightarrow> event list \<Rightarrow> js_error option \<times> ctx \<times> event list" where
  "tryHandler srv error c tr =
     (case make_handler srv of
        Inl e \<Rightarrow> (Some e, c, tr)
      | Inr h \<Rightarrow>
          (case (handle_op h, report h) of
             (Some hdl, Some rp) \<Rightarrow>
               (case rp error (ctx_request c) of
                  Some e \<Rightarrow> (Some e, c, tr @ [Reported error])
                | None \<Rightarrow>
                    (case hdl error c of
                       (thrown, c') \<Rightarrow> (thrown, c', tr @ [Reported error, Handled error])))
           | _ \<Rightarrow>
               (Some (RuntimeException_invoke
                        (exceptionHandlerNamespace srv
                           @ '' class must have handle and report methods on it'')),
                c, tr)))"

definition diagnostic :: "js_error \<Rightarrow> jsval" where
  "diagnostic e = JStr (err_name e @ '': '' @ err_message e @ [CHR 0x0A] @ err_stack e)"

definition status_or_500 :: "js_error \<Rightarrow> js_error" where
  "status_or_500 error =
     error\<lparr>err_status :=
       Some (case err_status error of None \<Rightarrow> 500 | Some s \<Rightarrow> (if s = 0 then 500 else s))\<rparr>"

text \<open>The \<open>catch\<close> block: \<open>ctx.response.status(500).send(...)\<close>.\<close>

definition sendDiagnostic :: "js_error \<Rightarrow> response \<Rightarrow> response" where
  "sendDiagnostic e r = Response_send (diagnostic e) (Response_status 500 r)"

text \<open>
  The body of \<open>_handleException\<close>.  The assignment
  \<open>error.status = error.status || 500\<close> stands before the \<open>try\<close>: on a failure that is
  \<open>null\<close> or \<open>undefined\<close>, or whose \<open>status\<close> cannot be assigned, it throws a
  TypeError, which rejects the promise of \<open>_handleException\<close>; nothing else of the
  funnel runs.  In the \<open>catch\<close> block \<open>status(500)\<close> is called first, then the text of
  the diagnostic is built: that throws when the error caught is \<open>null\<close> or
  \<open>undefined\<close>, and neither \<open>send\<close> nor \<open>_endResponse\<close> runs.
\<close>

definition handleException :: "server \<Rightarrow> js_error \<Rightarrow> ctx \<Rightarrow> world \<Rightarrow> ctx \<times> world" where
  "handleException srv error c w =
     (if err_kind error \<noteq> ErrorObject then (c, w\<lparr>trace := trace w @ [UnhandledRejection]\<rparr>)
      else
        (case tryHandler srv (status_or_500 error) c (trace w) of
           (thrown, c1, tr) \<Rightarrow>
             (case thrown of
                None \<Rightarrow>
                  (c1\<lparr>ctx_response := endResponse (ctx_response c1)\<rparr>, w\<lparr>trace := tr\<rparr>)
              | Some e \<Rightarrow>
                  (if err_kind e = Nullish then
                     (c1\<lparr>ctx_response := Response_status 500 (ctx_response c1)\<rparr>,
                      w\<lparr>trace := tr @ [UnhandledRejection]\<rparr>)
                   else
                     (c1\<lparr>ctx_response := endResponse (sendDiagnostic e (ctx_response c1))\<rparr>,
                      w\<lparr>trace := tr\<rparr>)))))"

text \<open>
  The forwarding branch of \<open>handle\<close>: the group's configuration, the target, then
  \<open>this._proxy.web\<close>.  Reading \<open>portScale\<close> of a group that is not configured throws;
  so does \<open>web\<close> on the \<open>null\<close> proxy.
\<close>

definition proxyTarget :: "server \<Rightarrow> route \<Rightarrow> config \<Rightarrow> (js_error + string) \<times> config" where
  "proxyTarget srv rt cf =
     (case Config_get (''app.cluster.groups.''
              @ (case clusterGroup rt of None \<Rightarrow> ''undefined'' | Some g \<Rightarrow> g)) JUndefined cf of
        (grp, cf') \<Rightarrow>
          (case getMember (store cf') grp ''portScale'' of
             None \<Rightarrow>
               (Inl (TypeError (''Cannot read properties of '' @ js_toString grp
                       @ '' (reading 'portScale')'')), cf')
           | Some portScale \<Rightarrow>
               (Inr (''http://localhost:''
                       @ js_toString (js_plus (parseInt (HTTP_PORT (env srv))) portScale)), cf')))"

datatype completion = Returned | Threw js_error

definition forward :: "server \<Rightarrow> route \<Rightarrow> world \<Rightarrow> completion \<times> world" where
  "forward srv rt w =
     (case proxyTarget srv rt (conf w) of
        (Inl e, cf) \<Rightarrow> (Threw e, w\<lparr>conf := cf\<rparr>)
      | (Inr target, cf) \<Rightarrow>
          (if proxy srv then (Returned, w\<lparr>conf := cf, trace := trace w @ [ProxyWeb target]\<rparr>)
           else (Threw (TypeError ''Cannot read properties of null (reading 'web')''),
                 w\<lparr>conf := cf\<rparr>)))"

text \<open>
  The first \<open>then\<close> callback of \<open>handle\<close>, after the server middleware: the error it
  throws, if any.
\<close>

definition afterServerMiddleware :: "server \<Rightarrow> route \<Rightarrow> ctx \<Rightarrow> world \<Rightarrow> js_error option \<times> ctx \<times> world" where
  "afterServerMiddleware srv rt c w =
     (let c1 = c\<lparr>ctx_response := evaluateResponse (ctx_response c)\<rparr>
      in if \<not> isPending (ctx_response c1) then (None, c1, w)
         else if clusterGroup rt \<noteq> WORKER_TYPE (env srv) then
           (case forward srv rt w of
              (Returned, w') \<Rightarrow> (None, c1, w')
            | (Threw e, w') \<Rightarrow> (Some e, c1, w'))
         else executeRouteHandler srv rt c1 w)"

text \<open>
  \<open>handle\<close>: how the call itself completes, and the context and the world once the
  promise chain it started, if any, has run.  An error thrown by \<open>_getRoute\<close> or by the
  forwarding branch leaves \<open>handle\<close> before the chain with its \<open>catch\<close> exists.
\<close>

definition handle :: "server \<Rightarrow> request \<Rightarrow> world \<Rightarrow> completion \<times> ctx \<times> world" where
  "handle srv req w =
     (let c0 = new_Context req
      in case getRoute srv c0 of
           Inl e \<Rightarrow> (Threw e, c0, w)
         | Inr (m, c1) \<Rightarrow>
             (if clusterGroup (match_route m) \<noteq> WORKER_TYPE (env srv) then
                (case forward srv (match_route m) w of (done, w') \<Rightarrow> (done, c1, w'))
              else
                (case executeServerMiddleware srv c1 w of
                   (Failed e, c2, w2) \<Rightarrow>
                     (case handleException srv e c2 w2 of (c', w') \<Rightarrow> (Returned, c', w'))
                 | (r, c2, w2) \<Rightarrow>
                     (case afterServerMiddleware srv (match_route m) c2 w2 of
                        (Some e, c3, w3) \<Rightarrow>
                          (case handleException srv e c3 w3 of (c', w') \<Rightarrow> (Returned, c', w'))
                      | (None, c3, w3) \<Rightarrow>
                          (Returned, c3\<lparr>ctx_response := endResponse (ctx_response c3)\<rparr>, w3)))))"

section \<open>An example deployment\<close>

text \<open>
  The configuration of the spec's scenario: group \<open>web\<close> at port offset 10, a default
  timeout of 1000 ms; the route \<open>GET /users/:id\<close> of group \<open>web\<close> with the named
  middleware \<open>auth\<close>; base port 8000.
\<close>

definition ex_store :: heap where
  "ex_store =
     \<lparr>objs = [0 \<mapsto> [(''app'', JRef 1)],
              1 \<mapsto> [(''cluster'', JRef 2), (''http'', JRef 5)],
              2 \<mapsto> [(''groups'', JRef 3)],
              3 \<mapsto> [(''web'', JRef 4)],
              4 \<mapsto> [(''portScale'', JNum 10)],
              5 \<mapsto> [(''timeout'', JNum 1000)]],
      nxt = 6\<rparr>"

definition ex_config :: config where
  "ex_config = \<lparr>store = ex_store, config_root = 0, emitted = []\<rparr>"

definition ex_world :: world where
  "ex_world = \<lparr>conf = ex_config, trace = [], timers = []\<rparr>"

definition ex_route :: route where
  "ex_route =
     \<lparr>clusterGroup = Some ''web'', middlewareList = [''auth''], handler = ''UserController.show''\<rparr>"

definition ex_request :: request where
  "ex_request =
     \<lparr>req_url = ''/users/42'', req_method = ''GET'', req_hostname = ''localhost'',
      req_params = JUndefined\<rparr>"

text \<open>An exception handler that reports and answers with the message of the error.\<close>

definition ex_handler :: exception_handler where
  "ex_handler =
     \<lparr>report = Some (\<lambda>e r. None),
      handle_op = Some (\<lambda>e c. (None,
        c\<lparr>ctx_response := Response_send (JStr (err_message e))
             (Response_status (case err_status e of Some s \<Rightarrow> s | None \<Rightarrow> 500)
                (ctx_response c))\<rparr>))\<rparr>"

text \<open>
  A worker of group \<open>web\<close> with proxying enabled; one server middleware and the named
  middleware \<open>auth\<close>, which both call \<open>next\<close>; a controller method that resolves
  after 10 ms.
\<close>

definition ex_server :: server where
  "ex_server =
     \<lparr>env = \<lparr>HTTP_PROXY_ENABLED = Some ''true'', WORKER_TYPE = Some ''web'',
              HTTP_PORT = Some ''8000''\<rparr>,
      proxy = True,
      Route_match = (\<lambda>u m h.
        if u = ''/users/42'' \<and> m = ''GET''
        then Some \<lparr>match_params = JStr ''42'', match_subdomains = JNull, match_route = ex_route\<rparr>
        else None),
      serverMiddleware = [CallsNext],
      globalMiddleware = [],
      namedMiddleware = (\<lambda>n. if n = ''auth'' then Some (\<lambda>arg. CallsNext) else None),
      resolveFunc = (\<lambda>r. Inr (\<lambda>c. (Resolves 10 (JStr ''user 42''), c))),
      exceptionHandlerNamespace = ''App/Exceptions/Handler'',
      make_handler = Inr ex_handler\<rparr>"

text \<open>The same deployment seen from a worker of group \<open>utility\<close>.\<close>

definition ex_utility :: server where
  "ex_utility = ex_server\<lparr>env := (env ex_server)\<lparr>WORKER_TYPE := Some ''utility''\<rparr>\<rparr>"

text \<open>
  The worker of group \<open>utility\<close> when the deployment does not enable proxying: the
  constructor leaves \<open>this._proxy\<close> \<open>null\<close>.
\<close>

definition ex_unproxied :: server where
  "ex_unproxied =
     ex_utility\<lparr>env := (env ex_utility)\<lparr>HTTP_PROXY_ENABLED := Some ''false''\<rparr>,
       proxy := constructor_proxy ((env ex_utility)\<lparr>HTTP_PROXY_ENABLED := Some ''false''\<rparr>)\<rparr>"

text \<open>
  Variants of the deployment: a server middleware that stages the body \<open>cached\<close> and
  does not call \<open>next\<close>; a controller method that needs 2000 ms; an exception handler
  with no \<open>report\<close>; an exception handler whose \<open>handle\<close> throws.
\<close>

definition ex_cached :: server where
  "ex_cached = ex_server\<lparr>serverMiddleware :=
     [\<lambda>c. Halts (c\<lparr>ctx_response := Response_send (JStr ''cached'') (ctx_response c)\<rparr>)]\<rparr>"

definition ex_slow :: server where
  "ex_slow = ex_server\<lparr>resolveFunc := (\<lambda>r. Inr (\<lambda>c. (Resolves 2000 (JStr ''user 42''), c)))\<rparr>"

definition ex_no_report :: server where
  "ex_no_report = ex_server\<lparr>make_handler := Inr (ex_handler\<lparr>report := None\<rparr>)\<rparr>"

definition ex_failure :: js_error where
  "ex_failure = \<lparr>err_name = ''Error'', err_message = ''boom'', err_stack = ''Error: boom'',
     err_status = None, err_code = None, err_kind = ErrorObject\<rparr>"

text \<open>
  A controller method that streams its answer: it switches \<open>implicitEnd\<close> off on the
  response, and fails after 5 ms; the exception handler is the one with no \<open>report\<close>.
\<close>

definition ex_stream_fails :: server where
  "ex_stream_fails =
     ex_no_report\<lparr>resolveFunc := (\<lambda>r. Inr (\<lambda>c.
        (Rejects 5 ex_failure,
         c\<lparr>ctx_response := (ctx_response c)\<lparr>implicitEnd := False\<rparr>\<rparr>)))\<rparr>"

definition ex_throwing :: server where
  "ex_throwing = ex_server\<lparr>make_handler :=
     Inr (ex_handler\<lparr>handle_op := Some (\<lambda>e c. (Some ex_failure, c))\<rparr>)\<rparr>"

section \<open>Well-formed stores\<close>
















section \<open>Finalization\<close>

text \<open>
  C9, as stated, for a pending response: the claim has finalization close the stream of
  every pending or soft-set response.  A response whose \<open>implicitEnd\<close> flag was switched
  off stays pending: \<open>_endResponse\<close> tests the flag before it calls \<open>end\<close>.
\<close>

theorem endResponse_pending_counterexample:
  "isPending (endResponse \<lparr>isPending = True, implicitEnd = False,
      lazyBody_content = JStr ''hello'', lazyBody_method = ''send'',
      statusCode = 200, sentBody = None, ends = 0\<rparr>)"
  by (simp add: endResponse_def)

text \<open>
  C9, amended: finalization leaves an ended response as it is, the first and the second
  time; it closes the stream of a pending (or soft-set) response exactly once when the
  response ends implicitly, and leaves a pending response with \<open>implicitEnd\<close> off
  untouched.  In every case a second finalization changes nothing.
\<close>

theorem endResponse_idempotent:
  "(\<not> isPending r \<longrightarrow> endResponse r = r \<and> endResponse (endResponse r) = r)
   \<and> (isPending r \<and> implicitEnd r \<longrightarrow>
        \<not> isPending (endResponse r) \<and> ends (endResponse r) = Suc (ends r)
        \<and> sentBody (endResponse r) = Some (lazyBody_content r))
   \<and> (isPending r \<and> \<not> implicitEnd r \<longrightarrow> endResponse r = r)
   \<and> endResponse (endResponse r) = endResponse r"
  by (simp add: endResponse_def Response_end_def)

theorem endResponse_idempotent_witness:
  "\<not> isPending (endResponse \<lparr>isPending = True, implicitEnd = True,
      lazyBody_content = JStr ''hello'', lazyBody_method = ''send'',
      statusCode = 200, sentBody = None, ends = 0\<rparr>)
   \<and> ends (endResponse \<lparr>isPending = True, implicitEnd = True,
      lazyBody_content = JStr ''hello'', lazyBody_method = ''send'',
      statusCode = 200, sentBody = None, ends = 0\<rparr>) = 1
   \<and> endResponse \<lparr>isPending = False, implicitEnd = True,
      lazyBody_content = JStr ''hello'', lazyBody_method = ''send'',
      statusCode = 200, sentBody = Some (JStr ''hello''), ends = 1\<rparr>
     = \<lparr>isPending = False, implicitEnd = True,
      lazyBody_content = JStr ''hello'', lazyBody_method = ''send'',
      statusCode = 200, sentBody = Some (JStr ''hello''), ends = 1\<rparr>"
  using endResponse_idempotent [of "\<lparr>isPending = True, implicitEnd = True,
      lazyBody_content = JStr ''hello'', lazyBody_method = ''send'',
      statusCode = 200, sentBody = None, ends = 0\<rparr>"]
    endResponse_idempotent [of "\<lparr>isPending = False, implicitEnd = True,
      lazyBody_content = JStr ''hello'', lazyBody_method = ''send'',
      statusCode = 200, sentBody = Some (JStr ''hello''), ends = 1\<rparr>"]
  by simp

section \<open>Rules for evaluating the model\<close>

lemmas ex_defs = ex_store_def ex_config_def ex_world_def ex_route_def ex_request_def
  ex_handler_def ex_server_def ex_utility_def ex_unproxied_def constructor_proxy_def
  ex_cached_def ex_slow_def ex_no_report_def
  ex_failure_def ex_throwing_def ex_stream_fails_def

lemmas js_eval = digits.simps show_int_def js_toString_def truthy_def is_ws_def digit_val_def
  is_digit_def digits_value_def hex_prefix_def parseInt_def js_toNumber_def is_stringy_def
  js_plus_def HttpException_def RuntimeException_invoke_def TypeError_def

lemmas heap_eval = props_of_def alloc_def readProp_def writeProp_def getMember_def
  assignProp_def castPath_def objectOrNew_def unsafe_key_def lodash_get_def lodash_clone_def lodash_set_def
  Config_get_def Config_set_def

lemmas response_eval = Response_send_def Response_status_def Response_end_def
  madeSoftResponse_def endResponse_def safelySetResponse_def evaluateResponse_def

lemmas server_eval = AbortController_abort_def new_Context_def resolveNamed_def
  composeGlobalAndNamed_def timerDelay_def AbortError_def invalid_signal_def
  timers_setTimeout_def rethrow_unless_abort_def deadline_def promise_race_def
  executeServerMiddleware_def routeHandler_def executeRouteHandler_def getRoute_def
  tryHandler_def diagnostic_def status_or_500_def sendDiagnostic_def handleException_def proxyTarget_def
  forward_def afterServerMiddleware_def handle_def

section \<open>A request that matches no route\<close>

text \<open>
  C1: a request that no route matches should end in the exception funnel, with a
  response finalized with status 404.  In the code \<open>_getRoute\<close> is called by \<open>handle\<close>
  before the promise chain and its \<open>catch\<close> exist: the 404 exception leaves \<open>handle\<close>
  itself, \<open>_handleException\<close> never runs, and the response stays as the context was
  created with it: pending, status 200, stream open.
\<close>

theorem handle_no_route:
  assumes "Route_match srv (req_url req) (req_method req) (req_hostname req) = None"
  shows "handle srv req w =
           (Threw (HttpException (''Route not found '' @ req_method req @ '' '' @ req_url req)
                     404 ''E_ROUTE_NOT_FOUND''),
            new_Context req, w)
         \<and> isPending (ctx_response (fst (snd (handle srv req w))))
         \<and> statusCode (ctx_response (fst (snd (handle srv req w)))) = 200
         \<and> ends (ctx_response (fst (snd (handle srv req w)))) = 0"
  using assms by (simp add: handle_def getRoute_def new_Context_def)

theorem handle_no_route_witness:
  "fst (handle ex_server (ex_request\<lparr>req_url := ''/nowhere''\<rparr>) ex_world) =
     Threw (HttpException ''Route not found GET /nowhere'' 404 ''E_ROUTE_NOT_FOUND'')
   \<and> isPending (ctx_response (fst (snd
         (handle ex_server (ex_request\<lparr>req_url := ''/nowhere''\<rparr>) ex_world))))
   \<and> trace (snd (snd (handle ex_server (ex_request\<lparr>req_url := ''/nowhere''\<rparr>) ex_world))) = []"
proof -
  have h: "Route_match ex_server (req_url (ex_request\<lparr>req_url := ''/nowhere''\<rparr>))
             (req_method (ex_request\<lparr>req_url := ''/nowhere''\<rparr>))
             (req_hostname (ex_request\<lparr>req_url := ''/nowhere''\<rparr>)) = None"
    by (simp add: ex_server_def ex_request_def)
  from handle_no_route [OF h, of ex_world] show ?thesis
    by (simp add: ex_request_def ex_world_def new_Context_def)
qed

section \<open>Routes of another cluster group\<close>

lemma handle_mismatch:
  assumes "Route_match srv (req_url req) (req_method req) (req_hostname req) = Some m"
    and "clusterGroup (match_route m) \<noteq> WORKER_TYPE (env srv)"
  shows "handle srv req w =
           (fst (forward srv (match_route m) w),
            (new_Context req)\<lparr>ctx_params := match_params m, ctx_subdomains := match_subdomains m,
               ctx_request := (ctx_request (new_Context req))\<lparr>req_params := match_params m\<rparr>\<rparr>,
            snd (forward srv (match_route m) w))"
  using assms by (simp add: handle_def getRoute_def new_Context_def split: prod.splits)

text \<open>
  C2: with proxying disabled, a request whose route belongs to another cluster group
  than the worker's should be served locally.  The code does not get there: \<open>handle\<close>
  tests only the group, takes the forwarding branch and calls \<open>web\<close> on \<open>this._proxy\<close>,
  which the constructor left \<open>null\<close> (the \<open>listen\<close> methods test
  \<open>HTTP_PROXY_ENABLED\<close> before they use the proxy; \<open>handle\<close> does not).  The
  TypeError leaves \<open>handle\<close> itself, before the promise chain and its \<open>catch\<close>
  exist: no middleware and no handler runs, nothing is forwarded, the exception funnel
  is not reached, and the response stays as the context was created with it, pending,
  with nothing staged and its stream open.  (The group is taken to be configured, as
  for a forward.)
\<close>

theorem mismatch_disabled_throws:
  assumes "Route_match srv (req_url req) (req_method req) (req_hostname req) = Some m"
    and "clusterGroup (match_route m) = Some g"
    and "WORKER_TYPE (env srv) \<noteq> Some g"
    and "HTTP_PROXY_ENABLED (env srv) \<noteq> Some ''true''"
    and "proxy srv = constructor_proxy (env srv)"
    and "Config_get (''app.cluster.groups.'' @ g) JUndefined (conf w) = (grp, cf)"
    and "getMember (store cf) grp ''portScale'' = Some k"
  shows "handle srv req w =
           (Threw (TypeError ''Cannot read properties of null (reading 'web')''),
            (new_Context req)\<lparr>ctx_params := match_params m, ctx_subdomains := match_subdomains m,
               ctx_request := (ctx_request (new_Context req))\<lparr>req_params := match_params m\<rparr>\<rparr>,
            w\<lparr>conf := cf\<rparr>)
         \<and> trace (snd (snd (handle srv req w))) = trace w
         \<and> ctx_response (fst (snd (handle srv req w))) = ctx_response (new_Context req)
         \<and> isPending (ctx_response (fst (snd (handle srv req w))))
         \<and> lazyBody_content (ctx_response (fst (snd (handle srv req w)))) = JNull
         \<and> sentBody (ctx_response (fst (snd (handle srv req w)))) = None
         \<and> ends (ctx_response (fst (snd (handle srv req w)))) = 0"
proof -
  have ne: "clusterGroup (match_route m) \<noteq> WORKER_TYPE (env srv)"
    using assms(2,3) by auto
  have np: "\<not> proxy srv"
    using assms(4,5) by (simp add: constructor_proxy_def)
  have t: "proxyTarget srv (match_route m) (conf w)
             = (Inr (''http://localhost:''
                  @ js_toString (js_plus (parseInt (HTTP_PORT (env srv))) k)), cf)"
    using assms(2,6,7) by (simp add: proxyTarget_def)
  have f: "forward srv (match_route m) w
             = (Threw (TypeError ''Cannot read properties of null (reading 'web')''),
                w\<lparr>conf := cf\<rparr>)"
    using t np by (simp add: forward_def)
  show ?thesis
    by (simp add: handle_mismatch [OF assms(1) ne] f new_Context_def)
qed

theorem mismatch_disabled_throws_witness:
  "fst (handle ex_unproxied ex_request ex_world)
     = Threw (TypeError ''Cannot read properties of null (reading 'web')'')
   \<and> trace (snd (snd (handle ex_unproxied ex_request ex_world))) = []
   \<and> isPending (ctx_response (fst (snd (handle ex_unproxied ex_request ex_world))))
   \<and> sentBody (ctx_response (fst (snd (handle ex_unproxied ex_request ex_world)))) = None"
proof -
  let ?m = "\<lparr>match_params = JStr ''42'', match_subdomains = JNull, match_route = ex_route\<rparr>"
  let ?g = "Config_get (''app.cluster.groups.'' @ ''web'') JUndefined (conf ex_world)"
  have h1: "Route_match ex_unproxied (req_url ex_request) (req_method ex_request)
              (req_hostname ex_request) = Some ?m"
    by (simp add: ex_unproxied_def ex_utility_def ex_server_def ex_request_def)
  have h2: "clusterGroup (match_route ?m) = Some ''web''"
    by (simp add: ex_route_def)
  have h3: "WORKER_TYPE (env ex_unproxied) \<noteq> Some ''web''"
    by (simp add: ex_unproxied_def ex_utility_def ex_server_def)
  have h4: "HTTP_PROXY_ENABLED (env ex_unproxied) \<noteq> Some ''true''"
    by (simp add: ex_unproxied_def)
  have h5: "proxy ex_unproxied = constructor_proxy (env ex_unproxied)"
    by (simp add: ex_unproxied_def)
  have h6: "?g = (fst ?g, snd ?g)"
    by simp
  have h7: "getMember (store (snd ?g)) (fst ?g) ''portScale'' = Some (JNum 10)"
    by (simp add: ex_defs heap_eval)
  from mismatch_disabled_throws [OF h1 h2 h3 h4 h5 h6 h7] show ?thesis
    by (simp add: ex_world_def new_Context_def)
qed

text \<open>
  C8: with proxying enabled, a request whose route belongs to another cluster group
  than the worker's is forwarded, once, to \<open>http://localhost:\<close> followed by the base
  port plus the port offset configured for the group, and nothing runs locally: the
  only event of the dispatch is that one forward, and the response is left as created.
  (The group is taken to be configured with a numeric \<open>portScale\<close>, and \<open>HTTP_PORT\<close>
  to hold a number.)
\<close>

theorem proxy_forward:
  assumes "Route_match srv (req_url req) (req_method req) (req_hostname req) = Some m"
    and "clusterGroup (match_route m) = Some g"
    and "WORKER_TYPE (env srv) \<noteq> Some g"
    and "proxy srv"
    and "Config_get (''app.cluster.groups.'' @ g) JUndefined (conf w) = (grp, cf)"
    and "getMember (store cf) grp ''portScale'' = Some (JNum k)"
    and "parseInt (HTTP_PORT (env srv)) = JNum p"
  shows "fst (handle srv req w) = Returned
         \<and> trace (snd (snd (handle srv req w)))
             = trace w @ [ProxyWeb (''http://localhost:'' @ show_int (p + k))]
         \<and> ctx_response (fst (snd (handle srv req w))) = ctx_response (new_Context req)"
proof -
  have ne: "clusterGroup (match_route m) \<noteq> WORKER_TYPE (env srv)"
    using assms(2,3) by auto
  have t: "proxyTarget srv (match_route m) (conf w)
             = (Inr (''http://localhost:'' @ show_int (p + k)), cf)"
    using assms(2,5,6,7)
    by (simp add: proxyTarget_def js_plus_def is_stringy_def js_toNumber_def js_toString_def)
  have f: "forward srv (match_route m) w
             = (Returned, w\<lparr>conf := cf,
                  trace := trace w @ [ProxyWeb (''http://localhost:'' @ show_int (p + k))]\<rparr>)"
    using t assms(4) by (simp add: forward_def)
  show ?thesis
    by (simp add: handle_mismatch [OF assms(1) ne] f new_Context_def)
qed

theorem proxy_forward_witness:
  "fst (handle ex_utility ex_request ex_world) = Returned
   \<and> trace (snd (snd (handle ex_utility ex_request ex_world)))
       = [ProxyWeb ''http://localhost:8010'']"
proof -
  let ?m = "\<lparr>match_params = JStr ''42'', match_subdomains = JNull, match_route = ex_route\<rparr>"
  let ?g = "Config_get (''app.cluster.groups.'' @ ''web'') JUndefined (conf ex_world)"
  have h1: "Route_match ex_utility (req_url ex_request) (req_method ex_request)
              (req_hostname ex_request) = Some ?m"
    by (simp add: ex_utility_def ex_server_def ex_request_def)
  have h2: "clusterGroup (match_route ?m) = Some ''web''"
    by (simp add: ex_route_def)
  have h3: "WORKER_TYPE (env ex_utility) \<noteq> Some ''web''"
    by (simp add: ex_utility_def ex_server_def)
  have h4: "proxy ex_utility"
    by (simp add: ex_utility_def ex_server_def)
  have h5: "?g = (fst ?g, snd ?g)"
    by simp
  have h6: "getMember (store (snd ?g)) (fst ?g) ''portScale'' = Some (JNum 10)"
    by (simp add: ex_defs heap_eval)
  have h7: "parseInt (HTTP_PORT (env ex_utility)) = JNum 8000"
    by (simp add: ex_utility_def ex_server_def js_eval)
  have s: "show_int 8010 = ''8010''"
    by (simp add: show_int_def digits.simps)
  from proxy_forward [OF h1 h2 h3 h4 h5 h6 h7] show ?thesis
    by (simp add: s ex_world_def)
qed

section \<open>The timeout guard\<close>


lemma routeHandler_race:
  assumes "resolveFunc srv ref = Inr method"
    and "(if ctx_timeout c = JUndefined \<or> ctx_timeout c = JNull
          then Config_get ''app.http.timeout'' JUndefined (conf w)
          else (ctx_timeout c, conf w)) = (JNum n, cf)"
    and "method (c\<lparr>ctx_abort := Some \<lparr>aborted = False, abort_calls = 0\<rparr>, ctx_timeout := JNum n\<rparr>)
           = (run, c3)"
    and "ctx_abort c3 = Some ac"
  shows "routeHandler srv ref c w =
     (case promise_race (settlement run)
             (timerDelay (JNum n),
              Rejected (HttpException
                (''Request timed out after '' @ js_toString (ctx_timeout c3) @ '' ms'')
                500 ''E_SERVER_TIMEOUT'')) of
        (handlerFirst, outcome) \<Rightarrow>
          (case outcome of
             Rejected e \<Rightarrow> Some e
           | Fulfilled v \<Rightarrow> None,
           (case outcome of
             Rejected e \<Rightarrow> c3\<lparr>ctx_abort := Some (AbortController_abort ac)\<rparr>
           | Fulfilled v \<Rightarrow>
               c3\<lparr>ctx_abort := Some (AbortController_abort ac),
                  ctx_response := safelySetResponse (ctx_response c3) v\<rparr>),
           w\<lparr>conf := cf, trace := trace w @ [CalledHandler ref, CalledAbort],
              timers := (if handlerFirst
                         then timers w @ [\<lparr>fireAt = timerDelay (JNum n), timer_signal = JUndefined\<rparr>]
                         else timers w)\<rparr>))"
proof -
  have sig: "getMember (store cf) (JNum n) ''signal'' = Some JUndefined"
    by (simp add: getMember_def)
  have tp: "timers_setTimeout (store cf) (JNum n) JUndefined = Armed (timerDelay (JNum n))"
    by (simp add: timers_setTimeout_def)
  have dl: "deadline (ctx_timeout c3) (Armed (timerDelay (JNum n))) =
              (timerDelay (JNum n),
               Rejected (HttpException
                 (''Request timed out after '' @ js_toString (ctx_timeout c3) @ '' ms'')
                 500 ''E_SERVER_TIMEOUT''))"
    by (simp add: deadline_def rethrow_unless_abort_def HttpException_def)
  let ?to = "Rejected (HttpException
                 (''Request timed out after '' @ js_toString (ctx_timeout c3) @ '' ms'')
                 500 ''E_SERVER_TIMEOUT'')"
  obtain hf oc where pr: "promise_race (settlement run) (timerDelay (JNum n), ?to) = (hf, oc)"
    by (cases "promise_race (settlement run) (timerDelay (JNum n), ?to)")
  show ?thesis
    using assms pr unfolding routeHandler_def
    by (cases oc; cases hf) (simp_all add: sig tp dl Let_def split del: if_split)
qed


lemma timerDelay_num:
  "timerDelay (JNum n) = (if 1 \<le> n \<and> n \<le> 2147483647 then nat n else 1)"
  by (simp add: timerDelay_def js_toNumber_def)

text \<open>
  C3, as stated: with a timeout of zero, or none, the race would be skipped and no
  RequestTimeout would be possible.  With \<open>ctx.timeout = 0\<close> the timer is armed all the
  same (at the runtime's minimum delay) and a controller method that resolves after
  10 ms fails with "Request timed out after 0 ms"; with no timeout on the context or in
  the configuration, reading \<open>ctx.timeout.signal\<close> throws.
\<close>

theorem guard_zero_timeout_counterexample:
  "fst (routeHandler ex_server ''UserController.show''
          ((new_Context ex_request)\<lparr>ctx_timeout := JNum 0\<rparr>) ex_world)
     = Some (HttpException ''Request timed out after 0 ms'' 500 ''E_SERVER_TIMEOUT'')
   \<and> fst (routeHandler ex_server ''UserController.show'' (new_Context ex_request)
          \<lparr>conf = \<lparr>store = \<lparr>objs = [0 \<mapsto> []], nxt = 1\<rparr>, config_root = 0, emitted = []\<rparr>,
             trace = [], timers = []\<rparr>)
     = Some (TypeError ''Cannot read properties of undefined (reading 'signal')'')"
  by (intro conjI; simp add: ex_defs js_eval heap_eval response_eval server_eval)

text \<open>
  C3, amended: for every handler invocation whose timeout is a number, zero included,
  the guard runs the race against the deadline timer.  The handler's own outcome is
  returned when it settles no later than the timer fires; otherwise, and when the
  handler never settles, the guard fails with the RequestTimeout that carries the
  duration.  The timer's delay is at least 1 ms, and 1 ms for a timeout of zero.
\<close>

theorem guard_always_races:
  assumes "resolveFunc srv ref = Inr method"
    and "(if ctx_timeout c = JUndefined \<or> ctx_timeout c = JNull
          then Config_get ''app.http.timeout'' JUndefined (conf w)
          else (ctx_timeout c, conf w)) = (JNum n, cf)"
    and "method (c\<lparr>ctx_abort := Some \<lparr>aborted = False, abort_calls = 0\<rparr>, ctx_timeout := JNum n\<rparr>)
           = (run, c3)"
    and "ctx_abort c3 = Some ac"
    and "ctx_timeout c3 = JNum n"
  shows "fst (routeHandler srv ref c w) =
           (case settlement run of
              None \<Rightarrow> Some (HttpException (''Request timed out after '' @ show_int n @ '' ms'')
                               500 ''E_SERVER_TIMEOUT'')
            | Some (t, s) \<Rightarrow>
                (if t \<le> timerDelay (JNum n)
                 then (case s of Fulfilled v \<Rightarrow> None | Rejected e \<Rightarrow> Some e)
                 else Some (HttpException (''Request timed out after '' @ show_int n @ '' ms'')
                              500 ''E_SERVER_TIMEOUT'')))
         \<and> 1 \<le> timerDelay (JNum n)
         \<and> timerDelay (JNum 0) = 1"
proof -
  have d: "1 \<le> timerDelay (JNum n)" "timerDelay (JNum 0) = 1"
    by (auto simp: timerDelay_num)
  have r: "fst (routeHandler srv ref c w) =
           (case settlement run of
              None \<Rightarrow> Some (HttpException (''Request timed out after '' @ show_int n @ '' ms'')
                               500 ''E_SERVER_TIMEOUT'')
            | Some (t, s) \<Rightarrow>
                (if t \<le> timerDelay (JNum n)
                 then (case s of Fulfilled v \<Rightarrow> None | Rejected e \<Rightarrow> Some e)
                 else Some (HttpException (''Request timed out after '' @ show_int n @ '' ms'')
                              500 ''E_SERVER_TIMEOUT'')))"
    using assms(5)
    by (cases run)
       (simp_all add: routeHandler_race [OF assms(1,2,3,4)] promise_race_def js_toString_def)
  show ?thesis using r d by simp
qed


theorem guard_always_races_witness:
  "fst (routeHandler ex_server ''UserController.show''
          ((new_Context ex_request)\<lparr>ctx_timeout := JNum 20\<rparr>) ex_world) = None"
proof -
  let ?c = "(new_Context ex_request)\<lparr>ctx_timeout := JNum 20\<rparr>"
  let ?c3 = "?c\<lparr>ctx_abort := Some \<lparr>aborted = False, abort_calls = 0\<rparr>, ctx_timeout := JNum 20\<rparr>"
  have h1: "resolveFunc ex_server ''UserController.show''
              = Inr (\<lambda>c. (Resolves 10 (JStr ''user 42''), c))"
    by (simp add: ex_server_def)
  have h2: "(if ctx_timeout ?c = JUndefined \<or> ctx_timeout ?c = JNull
             then Config_get ''app.http.timeout'' JUndefined (conf ex_world)
             else (ctx_timeout ?c, conf ex_world)) = (JNum 20, conf ex_world)"
    by simp
  have h3: "(\<lambda>c. (Resolves 10 (JStr ''user 42''), c)) ?c3 = (Resolves 10 (JStr ''user 42''), ?c3)"
    by simp
  have h4: "ctx_abort ?c3 = Some \<lparr>aborted = False, abort_calls = 0\<rparr>"
    by simp
  have h5: "ctx_timeout ?c3 = JNum 20"
    by simp
  from guard_always_races [OF h1 h2 h3 h4 h5] show ?thesis
    by (simp add: timerDelay_num)
qed

text \<open>
  C4: a handler that completes before the deadline.  The guard returns its result (the
  response body is set from it, unless one is staged) and raises no RequestTimeout, and
  \<open>abort()\<close> is called once, at completion.  But the deadline timer is not canceled:
  it was armed with \<open>ctx.timeout.signal\<close>, which is \<open>undefined\<close> for a number, not
  with \<open>ctx.abort.signal\<close>, so it is still armed when the guard has returned.
\<close>

theorem guard_handler_first:
  assumes "resolveFunc srv ref = Inr method"
    and "(if ctx_timeout c = JUndefined \<or> ctx_timeout c = JNull
          then Config_get ''app.http.timeout'' JUndefined (conf w)
          else (ctx_timeout c, conf w)) = (JNum n, cf)"
    and "0 < n"
    and "method (c\<lparr>ctx_abort := Some \<lparr>aborted = False, abort_calls = 0\<rparr>, ctx_timeout := JNum n\<rparr>)
           = (Resolves t v, c3)"
    and "t < timerDelay (JNum n)"
    and "ctx_abort c3 = Some ac"
  shows "fst (routeHandler srv ref c w) = None
         \<and> ctx_response (fst (snd (routeHandler srv ref c w)))
             = safelySetResponse (ctx_response c3) v
         \<and> trace (snd (snd (routeHandler srv ref c w)))
             = trace w @ [CalledHandler ref, CalledAbort]
         \<and> timers (snd (snd (routeHandler srv ref c w)))
             = timers w @ [\<lparr>fireAt = timerDelay (JNum n), timer_signal = JUndefined\<rparr>]"
  using assms(5)
  by (simp add: routeHandler_race [OF assms(1,2,4,6)] promise_race_def)

theorem guard_handler_first_witness:
  "fst (routeHandler ex_server ''UserController.show'' (new_Context ex_request) ex_world) = None
   \<and> lazyBody_content (ctx_response (fst (snd
        (routeHandler ex_server ''UserController.show'' (new_Context ex_request) ex_world))))
       = JStr ''user 42''
   \<and> timers (snd (snd
        (routeHandler ex_server ''UserController.show'' (new_Context ex_request) ex_world)))
       = [\<lparr>fireAt = 1000, timer_signal = JUndefined\<rparr>]"
proof -
  let ?c = "new_Context ex_request"
  let ?c3 = "?c\<lparr>ctx_abort := Some \<lparr>aborted = False, abort_calls = 0\<rparr>, ctx_timeout := JNum 1000\<rparr>"
  have h1: "resolveFunc ex_server ''UserController.show''
              = Inr (\<lambda>c. (Resolves 10 (JStr ''user 42''), c))"
    by (simp add: ex_server_def)
  have h2: "(if ctx_timeout ?c = JUndefined \<or> ctx_timeout ?c = JNull
             then Config_get ''app.http.timeout'' JUndefined (conf ex_world)
             else (ctx_timeout ?c, conf ex_world)) = (JNum 1000, ex_config)"
    by (simp add: ex_defs heap_eval new_Context_def)
  have h3: "(0::int) < 1000"
    by simp
  have h4: "(\<lambda>c. (Resolves 10 (JStr ''user 42''), c)) ?c3 = (Resolves 10 (JStr ''user 42''), ?c3)"
    by simp
  have h5: "10 < timerDelay (JNum 1000)"
    by (simp add: timerDelay_num)
  have h6: "ctx_abort ?c3 = Some \<lparr>aborted = False, abort_calls = 0\<rparr>"
    by simp
  from guard_handler_first [OF h1 h2 h3 h4 h5 h6] show ?thesis
    by (simp add: timerDelay_num ex_world_def new_Context_def response_eval)
qed

section \<open>Requests served by the worker itself\<close>

lemma run_chain_trace:
  "\<exists>k. snd (snd (run_chain ev i ls c tr)) = tr @ map ev [i..<i + k] \<and> k \<le> length ls"
proof (induction ls arbitrary: i c tr)
  case Nil
  show ?case by (rule exI [of _ 0]) simp
next
  case (Cons l ls)
  show ?case
  proof (cases "l c")
    case (CallsNext c')
    from Cons.IH [of "Suc i" c' "tr @ [ev i]"]
    obtain k where k: "snd (snd (run_chain ev (Suc i) ls c' (tr @ [ev i])))
                         = (tr @ [ev i]) @ map ev [Suc i..<Suc i + k]" "k \<le> length ls"
      by blast
    have u: "[i..<Suc (i + k)] = i # [Suc i..<Suc (i + k)]"
      by (simp add: upt_rec)
    show ?thesis
      by (rule exI [of _ "Suc k"]) (simp add: CallsNext k u del: upt_Suc)
  next
    case (Halts c')
    show ?thesis by (rule exI [of _ 1]) (simp add: Halts)
  next
    case (Raises e c')
    show ?thesis by (rule exI [of _ 1]) (simp add: Raises)
  qed
qed

lemma handle_local:
  assumes "getRoute srv (new_Context req) = Inr (m, c1)"
    and "clusterGroup (match_route m) = WORKER_TYPE (env srv)"
    and "executeServerMiddleware srv c1 w = (r, c2, w2)"
    and "r = ReachedEnd \<or> r = Stopped"
  shows "handle srv req w =
           (case afterServerMiddleware srv (match_route m) c2 w2 of
              (None, c3, w3) \<Rightarrow> (Returned, c3\<lparr>ctx_response := endResponse (ctx_response c3)\<rparr>, w3)
            | (Some e, c3, w3) \<Rightarrow> (Returned, handleException srv e c3 w3))"
  using assms by (auto simp: handle_def split: prod.splits option.splits)

text \<open>
  C6: when the server middleware has completed and the response is no longer pending
  (a body it staged is flushed by \<open>_evaluateResponse\<close>, or it closed the stream
  itself), the dispatch ends there.  The result is the context the server middleware
  left, with that response; the trace holds server middleware only; the body sent is
  the one the server middleware staged (or sent); the stream is closed once by the
  dispatcher when the body was only staged and not again when the middleware had closed
  it; and no route middleware and no handler runs: the result is the same whatever the
  global middleware, the named middleware and the controller methods are.
\<close>

theorem server_middleware_short_circuit:
  assumes "getRoute srv (new_Context req) = Inr (m, c1)"
    and "clusterGroup (match_route m) = WORKER_TYPE (env srv)"
    and "executeServerMiddleware srv c1 w = (r, c2, w2)"
    and "r = ReachedEnd \<or> r = Stopped"
    and "\<not> isPending (evaluateResponse (ctx_response c2))"
  shows "handle srv req w = (Returned, c2\<lparr>ctx_response := evaluateResponse (ctx_response c2)\<rparr>, w2)
         \<and> (\<exists>k. trace w2 = trace w @ map RanServerMiddleware [0..<k])
         \<and> sentBody (evaluateResponse (ctx_response c2))
             = (if isPending (ctx_response c2) then Some (lazyBody_content (ctx_response c2))
                else sentBody (ctx_response c2))
         \<and> ends (evaluateResponse (ctx_response c2))
             = (if isPending (ctx_response c2) then Suc (ends (ctx_response c2))
                else ends (ctx_response c2))
         \<and> handle (srv\<lparr>globalMiddleware := gm, namedMiddleware := nm, resolveFunc := rf\<rparr>) req w
             = handle srv req w"
proof -
  let ?c = "c2\<lparr>ctx_response := evaluateResponse (ctx_response c2)\<rparr>"
  have a: "afterServerMiddleware srv' (match_route m) c2 w2 = (None, ?c, w2)" for srv'
    using assms(5) by (simp add: afterServerMiddleware_def Let_def)
  have e: "endResponse (evaluateResponse (ctx_response c2)) = evaluateResponse (ctx_response c2)"
    using assms(5) by (simp add: endResponse_def)
  have h: "handle srv req w = (Returned, ?c, w2)"
    by (simp add: handle_local [OF assms(1-4)] a e)
  let ?srv = "srv\<lparr>globalMiddleware := gm, namedMiddleware := nm, resolveFunc := rf\<rparr>"
  have g': "getRoute ?srv (new_Context req) = Inr (m, c1)"
    using assms(1) by (simp add: getRoute_def)
  have c': "clusterGroup (match_route m) = WORKER_TYPE (env ?srv)"
    using assms(2) by simp
  have s': "executeServerMiddleware ?srv c1 w = (r, c2, w2)"
    using assms(3) by (simp add: executeServerMiddleware_def)
  have h': "handle ?srv req w = (Returned, ?c, w2)"
    by (simp add: handle_local [OF g' c' s' assms(4)] a e)
  have t: "\<exists>k. trace w2 = trace w @ map RanServerMiddleware [0..<k]"
    using assms(3) run_chain_trace [of RanServerMiddleware 0 "serverMiddleware srv" c1 "trace w"]
    by (auto simp: executeServerMiddleware_def split: prod.splits)
  have b: "sentBody (evaluateResponse (ctx_response c2))
             = (if isPending (ctx_response c2) then Some (lazyBody_content (ctx_response c2))
                else sentBody (ctx_response c2))"
    using assms(5)
    by (auto simp: evaluateResponse_def endResponse_def Response_end_def split: if_splits)
  have n: "ends (evaluateResponse (ctx_response c2))
             = (if isPending (ctx_response c2) then Suc (ends (ctx_response c2))
                else ends (ctx_response c2))"
    using assms(5)
    by (auto simp: evaluateResponse_def endResponse_def Response_end_def split: if_splits)
  show ?thesis using h h' t b n by simp
qed


theorem server_middleware_short_circuit_witness:
  "sentBody (ctx_response (fst (snd (handle ex_cached ex_request ex_world))))
     = Some (JStr ''cached'')
   \<and> ends (ctx_response (fst (snd (handle ex_cached ex_request ex_world)))) = 1
   \<and> trace (snd (snd (handle ex_cached ex_request ex_world))) = [RanServerMiddleware 0]"
proof -
  let ?m = "\<lparr>match_params = JStr ''42'', match_subdomains = JNull, match_route = ex_route\<rparr>"
  let ?c1 = "(new_Context ex_request)\<lparr>ctx_params := JStr ''42'', ctx_subdomains := JNull,
               ctx_request := ex_request\<lparr>req_params := JStr ''42''\<rparr>\<rparr>"
  let ?c2 = "?c1\<lparr>ctx_response := Response_send (JStr ''cached'') (ctx_response ?c1)\<rparr>"
  let ?w2 = "ex_world\<lparr>trace := [RanServerMiddleware 0]\<rparr>"
  have h1: "getRoute ex_cached (new_Context ex_request) = Inr (?m, ?c1)"
    by (simp add: getRoute_def ex_cached_def ex_server_def ex_request_def new_Context_def)
  have h2: "clusterGroup (match_route ?m) = WORKER_TYPE (env ex_cached)"
    by (simp add: ex_cached_def ex_server_def ex_route_def)
  have h3: "executeServerMiddleware ex_cached ?c1 ex_world = (Stopped, ?c2, ?w2)"
    by (simp add: executeServerMiddleware_def ex_cached_def ex_server_def ex_world_def)
  have h4: "Stopped = ReachedEnd \<or> Stopped = Stopped"
    by simp
  have h5: "\<not> isPending (evaluateResponse (ctx_response ?c2))"
    by (simp add: new_Context_def response_eval)
  from server_middleware_short_circuit [OF h1 h2 h3 h4 h5] show ?thesis
    by (simp add: new_Context_def response_eval ex_world_def)
qed

section \<open>The exception funnel\<close>

text \<open>
  A failure whose \<open>status\<close> cannot be read or assigned stops the funnel at its first
  statement: nothing is reported, handled, written or finalized.
\<close>

lemma funnel_stops_at_status:
  "err_kind error \<noteq> ErrorObject \<Longrightarrow>
     handleException srv error c w = (c, w\<lparr>trace := trace w @ [UnhandledRejection]\<rparr>)"
  by (simp add: handleException_def)




section \<open>A handler that exceeds the timeout\<close>

text \<open>
  C5: a request of the worker's own group whose server middleware leaves the response
  pending and whose route middleware all call \<open>next\<close>, with a positive timeout \<open>n\<close>
  (on the context, or from \<open>app.http.timeout\<close>) and a controller method that has not
  settled when the timer fires.  The guard calls \<open>abort()\<close> once (the token, untouched
  by the handler, ends aborted with one call) and fails with the HttpException
  "Request timed out after n ms", status 500, code \<open>E_SERVER_TIMEOUT\<close>; the failure
  passes the \<open>catch\<close> of \<open>handle\<close> into \<open>_handleException\<close>.
\<close>

theorem timeout_reaches_funnel:
  assumes "getRoute srv (new_Context req) = Inr (m, c1)"
    and "clusterGroup (match_route m) = WORKER_TYPE (env srv)"
    and "executeServerMiddleware srv c1 w = (r, c2, w2)"
    and "r = ReachedEnd \<or> r = Stopped"
    and "isPending (evaluateResponse (ctx_response c2))"
    and "composeGlobalAndNamed srv (middlewareList (match_route m)) = Inr links"
    and "run_chain RanRouteMiddleware 0 links
           (c2\<lparr>ctx_response := evaluateResponse (ctx_response c2)\<rparr>) (trace w2)
         = (ReachedEnd, c3, tr)"
    and "resolveFunc srv (handler (match_route m)) = Inr method"
    and "(if ctx_timeout c3 = JUndefined \<or> ctx_timeout c3 = JNull
          then Config_get ''app.http.timeout'' JUndefined (conf w2)
          else (ctx_timeout c3, conf w2)) = (JNum n, cf)"
    and "0 < n"
    and "method (c3\<lparr>ctx_abort := Some \<lparr>aborted = False, abort_calls = 0\<rparr>, ctx_timeout := JNum n\<rparr>)
           = (run, c4)"
    and "settlement run = None \<or> (\<exists>t s. settlement run = Some (t, s) \<and> timerDelay (JNum n) < t)"
    and "ctx_abort c4 = Some \<lparr>aborted = False, abort_calls = 0\<rparr>"
    and "ctx_timeout c4 = JNum n"
  shows "handle srv req w =
           (Returned,
            handleException srv
              (HttpException (''Request timed out after '' @ show_int n @ '' ms'')
                 500 ''E_SERVER_TIMEOUT'')
              (c4\<lparr>ctx_abort := Some \<lparr>aborted = True, abort_calls = 1\<rparr>\<rparr>)
              (w2\<lparr>conf := cf,
                  trace := tr @ [CalledHandler (handler (match_route m)), CalledAbort]\<rparr>))"
proof -
  let ?to = "HttpException (''Request timed out after '' @ show_int n @ '' ms'')
               500 ''E_SERVER_TIMEOUT''"
  let ?w = "w2\<lparr>trace := tr\<rparr>"
  have cw: "conf ?w = conf w2"
    by simp
  have cfg: "(if ctx_timeout c3 = JUndefined \<or> ctx_timeout c3 = JNull
              then Config_get ''app.http.timeout'' JUndefined (conf ?w)
              else (ctx_timeout c3, conf ?w)) = (JNum n, cf)"
    unfolding cw by (rule assms(9))
  have pr: "promise_race (settlement run) (timerDelay (JNum n), Rejected ?to)
              = (False, Rejected ?to)"
    using assms(12) by (auto simp: promise_race_def)
  have g: "routeHandler srv (handler (match_route m)) c3 ?w =
             (Some ?to, c4\<lparr>ctx_abort := Some \<lparr>aborted = True, abort_calls = 1\<rparr>\<rparr>,
              w2\<lparr>conf := cf,
                 trace := tr @ [CalledHandler (handler (match_route m)), CalledAbort]\<rparr>)"
    using pr
    by (simp add: routeHandler_race [OF assms(8) cfg assms(11,13)] assms(14) js_toString_def
          AbortController_abort_def)
  have x: "executeRouteHandler srv (match_route m)
             (c2\<lparr>ctx_response := evaluateResponse (ctx_response c2)\<rparr>) w2 =
           routeHandler srv (handler (match_route m)) c3 ?w"
    by (simp add: executeRouteHandler_def assms(6,7))
  have a: "afterServerMiddleware srv (match_route m) c2 w2 =
             (Some ?to, c4\<lparr>ctx_abort := Some \<lparr>aborted = True, abort_calls = 1\<rparr>\<rparr>,
              w2\<lparr>conf := cf,
                 trace := tr @ [CalledHandler (handler (match_route m)), CalledAbort]\<rparr>)"
    using assms(2,5) by (simp add: afterServerMiddleware_def Let_def x g)
  show ?thesis
    by (simp add: handle_local [OF assms(1-4)] a)
qed


theorem timeout_reaches_funnel_witness:
  "statusCode (ctx_response (fst (snd (handle ex_slow ex_request ex_world)))) = 500
   \<and> sentBody (ctx_response (fst (snd (handle ex_slow ex_request ex_world))))
       = Some (JStr ''Request timed out after 1000 ms'')
   \<and> ctx_abort (fst (snd (handle ex_slow ex_request ex_world)))
       = Some \<lparr>aborted = True, abort_calls = 1\<rparr>
   \<and> trace (snd (snd (handle ex_slow ex_request ex_world)))
       = [RanServerMiddleware 0, RanRouteMiddleware 0, CalledHandler ''UserController.show'',
          CalledAbort,
          Reported (HttpException ''Request timed out after 1000 ms'' 500 ''E_SERVER_TIMEOUT''),
          Handled (HttpException ''Request timed out after 1000 ms'' 500 ''E_SERVER_TIMEOUT'')]"
proof -
  let ?m = "\<lparr>match_params = JStr ''42'', match_subdomains = JNull, match_route = ex_route\<rparr>"
  let ?c1 = "(new_Context ex_request)\<lparr>ctx_params := JStr ''42'', ctx_subdomains := JNull,
               ctx_request := ex_request\<lparr>req_params := JStr ''42''\<rparr>\<rparr>"
  let ?w2 = "ex_world\<lparr>trace := [RanServerMiddleware 0]\<rparr>"
  let ?c4 = "?c1\<lparr>ctx_abort := Some \<lparr>aborted = False, abort_calls = 0\<rparr>, ctx_timeout := JNum 1000\<rparr>"
  let ?meth = "\<lambda>c::ctx. (Resolves 2000 (JStr ''user 42''), c)"
  have ev: "evaluateResponse (ctx_response ?c1) = ctx_response ?c1"
    by (simp add: new_Context_def response_eval)
  have h1: "getRoute ex_slow (new_Context ex_request) = Inr (?m, ?c1)"
    by (simp add: getRoute_def ex_slow_def ex_server_def ex_request_def new_Context_def)
  have h2: "clusterGroup (match_route ?m) = WORKER_TYPE (env ex_slow)"
    by (simp add: ex_slow_def ex_server_def ex_route_def)
  have h3: "executeServerMiddleware ex_slow ?c1 ex_world = (ReachedEnd, ?c1, ?w2)"
    by (simp add: executeServerMiddleware_def ex_slow_def ex_server_def ex_world_def)
  have h4: "ReachedEnd = ReachedEnd \<or> ReachedEnd = Stopped"
    by simp
  have h5: "isPending (evaluateResponse (ctx_response ?c1))"
    by (simp add: new_Context_def response_eval)
  have h6: "composeGlobalAndNamed ex_slow (middlewareList (match_route ?m)) = Inr [CallsNext]"
    by (simp add: composeGlobalAndNamed_def resolveNamed_def ex_slow_def ex_server_def ex_route_def)
  have h7: "run_chain RanRouteMiddleware 0 [CallsNext]
              (?c1\<lparr>ctx_response := evaluateResponse (ctx_response ?c1)\<rparr>) (trace ?w2)
            = (ReachedEnd, ?c1, [RanServerMiddleware 0, RanRouteMiddleware 0])"
    unfolding ev by simp
  have h8: "resolveFunc ex_slow (handler (match_route ?m)) = Inr ?meth"
    by (simp add: ex_slow_def ex_server_def)
  have h9: "(if ctx_timeout ?c1 = JUndefined \<or> ctx_timeout ?c1 = JNull
             then Config_get ''app.http.timeout'' JUndefined (conf ?w2)
             else (ctx_timeout ?c1, conf ?w2)) = (JNum 1000, ex_config)"
    by (simp add: ex_defs heap_eval new_Context_def)
  have h10: "(0::int) < 1000"
    by simp
  have h11: "?meth ?c4 = (Resolves 2000 (JStr ''user 42''), ?c4)"
    by simp
  have h12: "settlement (Resolves 2000 (JStr ''user 42'')) = None
             \<or> (\<exists>t s. settlement (Resolves 2000 (JStr ''user 42'')) = Some (t, s)
                    \<and> timerDelay (JNum 1000) < t)"
    by (simp add: timerDelay_def js_toNumber_def)
  have h13: "ctx_abort ?c4 = Some \<lparr>aborted = False, abort_calls = 0\<rparr>"
    by simp
  have h14: "ctx_timeout ?c4 = JNum 1000"
    by simp
  have s: "show_int 1000 = ''1000''"
    by (simp add: show_int_def digits.simps)
  have hr: "handle_op ex_handler \<noteq> None \<and> report ex_handler \<noteq> None"
    by (simp add: ex_handler_def)
  note t = timeout_reaches_funnel [OF h1 h2 h3 h4 h5 h6 h7 h8 h9 h10 h11 h12 h13 h14]
  show ?thesis
    unfolding t
    by (intro conjI; simp add: s ex_slow_def ex_server_def ex_handler_def ex_world_def
          ex_route_def new_Context_def handleException_def tryHandler_def status_or_500_def
          HttpException_def response_eval)
qed

section \<open>The configuration store hands out copies\<close>






lemma nxt_writeProp [simp]: "nxt (writeProp a k v h) = nxt h"
  by (simp add: writeProp_def)


















































end
